theory Spec2Isabelle
  imports Main
begin

section \<open>JavaScript values\<close>

text \<open>
  The main process of the desktop shell (\<^verbatim>\<open>FirebaseAuth/main.js\<close>) handles values that
  come from the remote API and from the renderer windows. They are modelled as JSON-like
  trees. The program observes a number only through its truthiness and its conversion to
  a string, so a number is represented by the text \<^verbatim>\<open>Number.prototype.toString\<close> gives
  for it (\<^verbatim>\<open>0\<close>, \<^verbatim>\<open>-12.5\<close>, \<^verbatim>\<open>1e+21\<close>, \<^verbatim>\<open>NaN\<close>): the falsy numbers are the zeros
  and NaN. Strings are byte strings; an object is an association list in which the first
  binding of a key is the one that is read.
\<close>

datatype jsval =
    JUndefined
  | JNull
  | JBool bool
  | JNum string
  | JStr string
  | JArr "jsval list"
  | JObj "(string \<times> jsval) list"

text \<open>Truthiness, as used by \<^verbatim>\<open>if (x)\<close>, \<^verbatim>\<open>!x\<close> and \<^verbatim>\<open>x || y\<close>.\<close>

fun truthy :: "jsval \<Rightarrow> bool" where
  "truthy JUndefined = False"
| "truthy JNull = False"
| "truthy (JBool b) = b"
| "truthy (JNum n) = (n \<noteq> ''0'' \<and> n \<noteq> ''NaN'')"
| "truthy (JStr s) = (s \<noteq> [])"
| "truthy (JArr xs) = True"
| "truthy (JObj kvs) = True"

definition js_or :: "jsval \<Rightarrow> jsval \<Rightarrow> jsval" where
  "js_or a b = (if truthy a then a else b)"

definition nullish :: "jsval \<Rightarrow> bool" where
  "nullish v = (v = JUndefined \<or> v = JNull)"

text \<open>
  Property read \<^verbatim>\<open>v.k\<close> for the keys the program reads (none of them is a built-in
  property of a string, a number or an array): \<open>read_prop\<close> is the read on a receiver that is
  not null or undefined, \<open>get_prop\<close> is the read that throws a TypeError (with the engine's
  message) on null and undefined.
\<close>

definition read_prop :: "jsval \<Rightarrow> string \<Rightarrow> jsval" where
  "read_prop v k =
     (case v of
        JObj kvs \<Rightarrow> (case map_of kvs k of Some x \<Rightarrow> x | None \<Rightarrow> JUndefined)
      | _ \<Rightarrow> JUndefined)"

fun join_with :: "string \<Rightarrow> string list \<Rightarrow> string" where
  "join_with sep [] = []"
| "join_with sep [x] = x"
| "join_with sep (x # y # ys) = x @ sep @ join_with sep (y # ys)"

text \<open>String conversion, as done by a template literal and by \<^verbatim>\<open>new Error(v)\<close>.\<close>

fun to_string :: "jsval \<Rightarrow> string" where
  "to_string JUndefined = ''undefined''"
| "to_string JNull = ''null''"
| "to_string (JBool b) = (if b then ''true'' else ''false'')"
| "to_string (JNum n) = n"
| "to_string (JStr s) = s"
| "to_string (JArr xs) =
     join_with '','' (map (\<lambda>x. if x = JUndefined \<or> x = JNull then [] else to_string x) xs)"
| "to_string (JObj kvs) = ''[object Object]''"

definition type_error :: "jsval \<Rightarrow> string \<Rightarrow> string" where
  "type_error v k =
     ''Cannot read properties of '' @ to_string v @ '' (reading '' @ [CHR 0x27] @ k
       @ [CHR 0x27] @ '')''"

definition get_prop :: "jsval \<Rightarrow> string \<Rightarrow> string + jsval" where
  "get_prop v k = (if nullish v then Inl (type_error v k) else Inr (read_prop v k))"

text \<open>\<^verbatim>\<open>String.prototype.toLowerCase\<close> on the ASCII letters.\<close>

definition to_lower_char :: "char \<Rightarrow> char" where
  "to_lower_char c =
     (let n = (of_char c :: nat) in if 65 \<le> n \<and> n \<le> 90 then char_of (n + 32) else c)"

definition toLowerCase :: "string \<Rightarrow> string" where
  "toLowerCase s = map to_lower_char s"


section \<open>The session bridge: data\<close>

text \<open>The module-level \<^verbatim>\<open>authState\<close> object and its nested \<^verbatim>\<open>userData\<close>.\<close>

record user_data =
  ud_userId :: jsval
  ud_username :: jsval
  ud_email :: jsval
  ownedCommunities :: jsval
  memberCommunities :: jsval

record auth_state =
  isAuthenticated :: bool
  token :: jsval
  userId :: jsval
  username :: jsval
  email :: jsval
  userData :: "user_data option"

definition empty_auth :: auth_state where
  "empty_auth =
     \<lparr>isAuthenticated = False, token = JNull, userId = JNull, username = JNull,
      email = JNull, userData = None\<rparr>"

text \<open>
  A socket of the \<^verbatim>\<open>ws\<close> package: its URL and its \<^verbatim>\<open>readyState\<close>. Calling
  \<^verbatim>\<open>close()\<close> on a connecting or open socket moves it to CLOSING at once and has no
  effect on a closing or closed one; the \<^verbatim>\<open>close\<close> event arrives later.
\<close>

datatype ready_state = CONNECTING | OPEN | CLOSING | CLOSED

record ws =
  ws_url :: string
  readyState :: ready_state

definition ws_close :: "ws \<Rightarrow> ws" where
  "ws_close w =
     (if readyState w = CONNECTING \<or> readyState w = OPEN then w\<lparr>readyState := CLOSING\<rparr>
      else w)"

text \<open>The axios client created by \<^verbatim>\<open>initializeMainProcessClients\<close>.\<close>

record axios_instance =
  baseURL :: string
  timeout :: nat
  content_type :: string
  common_Authorization :: "string option"

text \<open>What a request through the client settles to, and the error of a rejected one.\<close>

record axios_response =
  resp_status :: jsval
  resp_data :: jsval

record axios_error =
  ae_message :: string
  ae_response :: "axios_response option"

datatype http_outcome = Resolved jsval | Rejected axios_error

text \<open>The object sent on the \<^verbatim>\<open>user-data\<close> channel (\<^verbatim>\<open>userDataToSend\<close>).\<close>

record snapshot =
  sn_username :: jsval
  sn_userId :: jsval
  sn_email :: jsval
  sn_isAuthenticated :: bool
  sn_token :: jsval
  sn_serviceInitialized :: bool
  sn_ownedCommunities :: jsval
  sn_memberCommunities :: jsval

text \<open>Everything the main process sends out: to the network and to the windows.\<close>

datatype ipc_payload =
    UserData snapshot
  | Connected bool
  | ErrorText string
  | Message jsval
  | NoPayload

datatype http_method = GET | POST | PUT | DELETE

datatype effect =
    HttpRequest http_method jsval "string option" jsval
  | WsConnect string
  | WsTransmit jsval
  | IpcSend nat string ipc_payload

datatype window_kind = AuthWin | MainWin

text \<open>
  The module-level variables of \<^verbatim>\<open>main.js\<close>, followed by the part of the platform
  they refer to: the live windows (\<^verbatim>\<open>BrowserWindow.getAllWindows()\<close>), the live
  interval timers, the sockets the program no longer references (their handlers stay
  attached), the number of login requests in flight, the windows whose
  \<^verbatim>\<open>ready-to-show\<close> has not fired yet, fresh handles, and the trace of effects.
\<close>

record state =
  authState :: auth_state
  mainProcessWebSocket :: "ws option"
  axiosInstance :: "axios_instance option"
  connectionMonitorInterval :: "nat option"
  mainWindow :: "nat option"
  authWindow :: "nat option"
  windows :: "(nat \<times> window_kind) list"
  timers :: "nat list"
  orphans :: "ws list"
  pending_logins :: nat
  awaiting_ready :: "nat list"
  next_handle :: nat
  trace :: "effect list"

definition initial_state :: state where
  "initial_state =
     \<lparr>authState = empty_auth, mainProcessWebSocket = None, axiosInstance = None,
      connectionMonitorInterval = None, mainWindow = None, authWindow = None,
      windows = [], timers = [], orphans = [], pending_logins = 0, awaiting_ready = [],
      next_handle = 0, trace = []\<rparr>"


section \<open>The session bridge: operations\<close>

definition initializeMainProcessClients :: "state \<Rightarrow> state" where
  "initializeMainProcessClients s =
     s\<lparr>axiosInstance :=
         Some \<lparr>baseURL = ''http://127.0.0.1:3000'', timeout = 10000,
               content_type = ''application/json'', common_Authorization = None\<rparr>\<rparr>"

text \<open>
  The request interceptor installed on the client puts \<^verbatim>\<open>Bearer <token>\<close> on a request
  when \<^verbatim>\<open>authState.token\<close> is truthy; otherwise the request carries the client's default
  header, if there is one.
\<close>

definition bearer :: "jsval \<Rightarrow> string" where
  "bearer t = ''Bearer '' @ to_string t"

definition request_Authorization :: "state \<Rightarrow> string option" where
  "request_Authorization s =
     (if truthy (token (authState s)) then Some (bearer (token (authState s)))
      else (case axiosInstance s of None \<Rightarrow> None | Some a \<Rightarrow> common_Authorization a))"

definition axios_request :: "http_method \<Rightarrow> jsval \<Rightarrow> jsval \<Rightarrow> state \<Rightarrow> state" where
  "axios_request m url body s =
     s\<lparr>trace := trace s @ [HttpRequest m url (request_Authorization s) body]\<rparr>"

definition broadcastToAllWindows :: "string \<Rightarrow> ipc_payload \<Rightarrow> state \<Rightarrow> state" where
  "broadcastToAllWindows channel data s =
     s\<lparr>trace := trace s @ map (\<lambda>w. IpcSend (fst w) channel data) (windows s)\<rparr>"

text \<open>\<^verbatim>\<open>if (mainWindow && mainWindow.webContents) mainWindow.webContents.send(...)\<close>\<close>

definition send_to_mainWindow :: "string \<Rightarrow> ipc_payload \<Rightarrow> state \<Rightarrow> state" where
  "send_to_mainWindow channel data s =
     (case mainWindow s of
        None \<Rightarrow> s
      | Some w \<Rightarrow> s\<lparr>trace := trace s @ [IpcSend w channel data]\<rparr>)"

definition wsUrl :: "jsval \<Rightarrow> string" where
  "wsUrl uid = ''ws://127.0.0.1:3000/ws?userID='' @ to_string uid @ ''&clientType=desktop''"

text \<open>
  The constructor of the \<^verbatim>\<open>ws\<close> package is not part of the repository and may throw
  on a URL it does not accept (version 8 throws a SyntaxError on a URL with a fragment).
  It is a parameter of the model: \<open>Some\<close> the message of the error it throws on a URL,
  \<open>None\<close> when it returns a connecting socket.
\<close>

type_synonym ws_constructor = "string \<Rightarrow> string option"

text \<open>
  \<^verbatim>\<open>connectWebSocket(userId)\<close>: call \<^verbatim>\<open>close()\<close> on the socket the variable refers to, if
  any, then construct a new socket and store it in the variable; the old socket object
  lives on, unreferenced, with its handlers. When the constructor throws, the variable
  still refers to the old socket, on which \<^verbatim>\<open>close()\<close> has been called, and the error
  leaves the function: the result is \<open>Some\<close> its message.
\<close>

definition connectWebSocket ::
    "ws_constructor \<Rightarrow> jsval \<Rightarrow> state \<Rightarrow> string option \<times> state" where
  "connectWebSocket new_WebSocket uid s =
     (let s1 = s\<lparr>mainProcessWebSocket := map_option ws_close (mainProcessWebSocket s)\<rparr>
      in case new_WebSocket (wsUrl uid) of
           Some msg \<Rightarrow> (Some msg, s1)
         | None \<Rightarrow>
             (None,
              s1\<lparr>orphans :=
                    orphans s1 @ (case mainProcessWebSocket s1 of None \<Rightarrow> [] | Some w \<Rightarrow> [w]),
                  mainProcessWebSocket := Some \<lparr>ws_url = wsUrl uid, readyState = CONNECTING\<rparr>,
                  trace := trace s1 @ [WsConnect (wsUrl uid)]\<rparr>))"

text \<open>The four handlers \<^verbatim>\<open>connectWebSocket\<close> attaches to every socket it creates.\<close>

definition ws_on_open :: "state \<Rightarrow> state" where
  "ws_on_open s = broadcastToAllWindows ''websocket-status'' (Connected True) s"

definition ws_on_close :: "state \<Rightarrow> state" where
  "ws_on_close s = broadcastToAllWindows ''websocket-status'' (Connected False) s"

definition ws_on_error :: "string \<Rightarrow> state \<Rightarrow> state" where
  "ws_on_error msg s = broadcastToAllWindows ''websocket-error'' (ErrorText msg) s"

text \<open>
  The message handler gets the outcome of \<^verbatim>\<open>JSON.parse(data)\<close>: \<open>None\<close> when the parse
  throws, in which case the frame is logged and dropped.
\<close>

definition ws_on_message :: "jsval option \<Rightarrow> state \<Rightarrow> state" where
  "ws_on_message parsed s =
     (case parsed of
        None \<Rightarrow> s
      | Some message \<Rightarrow> broadcastToAllWindows ''websocket-message'' (Message message) s)"

definition stopConnectionMonitoring :: "state \<Rightarrow> state" where
  "stopConnectionMonitoring s =
     (case connectionMonitorInterval s of
        None \<Rightarrow> s
      | Some t \<Rightarrow> s\<lparr>timers := removeAll t (timers s), connectionMonitorInterval := None\<rparr>)"

definition startConnectionMonitoring :: "state \<Rightarrow> state" where
  "startConnectionMonitoring s =
     (let s1 = (case connectionMonitorInterval s of
                  None \<Rightarrow> s
                | Some t \<Rightarrow> s\<lparr>timers := removeAll t (timers s)\<rparr>)
      in s1\<lparr>connectionMonitorInterval := Some (next_handle s1),
            timers := timers s1 @ [next_handle s1],
            next_handle := Suc (next_handle s1)\<rparr>)"

text \<open>
  The callback given to \<^verbatim>\<open>setInterval\<close>: one tick of the connection monitor. Nothing
  in the callback catches an error of \<^verbatim>\<open>connectWebSocket\<close>: the callback ends there, and
  the health request is not issued.
\<close>

definition connectionMonitorTick :: "ws_constructor \<Rightarrow> state \<Rightarrow> state" where
  "connectionMonitorTick new_WebSocket s =
     (if isAuthenticated (authState s) then
        (case (if (case mainProcessWebSocket s of
                     None \<Rightarrow> True
                   | Some w \<Rightarrow> readyState w \<noteq> OPEN)
               then (if truthy (userId (authState s))
                     then connectWebSocket new_WebSocket (userId (authState s)) s
                     else (None, s))
               else (None, s)) of
           (Some msg, s1) \<Rightarrow> s1
         | (None, s1) \<Rightarrow>
             (case axiosInstance s1 of
                None \<Rightarrow> s1
              | Some a \<Rightarrow> axios_request GET (JStr ''/api/desktop/health'') JUndefined s1))
      else s)"

definition userDataToSend :: "auth_state \<Rightarrow> snapshot" where
  "userDataToSend a =
     \<lparr>sn_username = js_or (username a) (JStr ''Unknown''),
      sn_userId = userId a,
      sn_email = email a,
      sn_isAuthenticated = isAuthenticated a,
      sn_token = token a,
      sn_serviceInitialized = isAuthenticated a,
      sn_ownedCommunities =
        js_or (case userData a of None \<Rightarrow> JUndefined | Some u \<Rightarrow> ownedCommunities u) (JArr []),
      sn_memberCommunities =
        js_or (case userData a of None \<Rightarrow> JUndefined | Some u \<Rightarrow> memberCommunities u) (JArr [])\<rparr>"


subsection \<open>Login\<close>

datatype auth_result = AuthSuccess auth_state | AuthFailure string

text \<open>
  The part of the \<^verbatim>\<open>try\<close> block of \<^verbatim>\<open>authenticateUser\<close> that can throw, applied to
  \<^verbatim>\<open>response.data\<close>: the check of \<^verbatim>\<open>success\<close> and the object assigned to
  \<^verbatim>\<open>authState\<close>. \<open>Inl\<close> is the message of the error thrown.
\<close>

definition next_authState :: "jsval \<Rightarrow> string + auth_state" where
  "next_authState data =
     (case get_prop data ''success'' of
        Inl msg \<Rightarrow> Inl msg
      | Inr success \<Rightarrow>
          if \<not> truthy success
          then Inl (to_string (js_or (read_prop data ''message'') (JStr ''Login failed'')))
          else
            (let authToken = js_or (read_prop data ''token'') (read_prop data ''customToken'');
                 userInfo = read_prop data ''user''
             in case get_prop userInfo ''userID'' of
                  Inl msg \<Rightarrow> Inl msg
                | Inr uid \<Rightarrow>
                    Inr \<lparr>isAuthenticated = True,
                         token = authToken,
                         userId = uid,
                         username = read_prop userInfo ''username'',
                         email = read_prop userInfo ''email'',
                         userData =
                           Some \<lparr>ud_userId = uid,
                                 ud_username = read_prop userInfo ''username'',
                                 ud_email = read_prop userInfo ''email'',
                                 ownedCommunities =
                                   js_or (read_prop userInfo ''ownedCommunities'') (JArr []),
                                 memberCommunities =
                                   js_or (read_prop userInfo ''memberCommunities'') (JArr [])\<rparr>\<rparr>))"

text \<open>
  \<^verbatim>\<open>authenticateUser\<close> is an async function: it runs up to the \<^verbatim>\<open>await\<close> of the login
  request (\<open>authenticateUser_begin\<close>: \<open>Some\<close> result when it returns without suspending),
  and runs its remainder when the request settles (\<open>authenticateUser_resume\<close>). Other
  handlers can run in between. An error thrown by \<^verbatim>\<open>connectWebSocket\<close> is caught like
  every other one, after \<^verbatim>\<open>authState\<close> and the default header have been replaced.
\<close>

definition authenticateUser_begin ::
    "jsval \<Rightarrow> jsval \<Rightarrow> state \<Rightarrow> auth_result option \<times> state" where
  "authenticateUser_begin em pw s =
     (case axiosInstance s of
        None \<Rightarrow> (Some (AuthFailure ''API client not initialized''), s)
      | Some ax \<Rightarrow>
          (None, axios_request POST (JStr ''/api/auth/login'')
                   (JObj [(''email'', em), (''password'', pw)]) s))"

definition authenticateUser_resume ::
    "ws_constructor \<Rightarrow> http_outcome \<Rightarrow> state \<Rightarrow> auth_result \<times> state" where
  "authenticateUser_resume new_WebSocket outcome s =
     (case outcome of
        Rejected e \<Rightarrow> (AuthFailure (ae_message e), s)
      | Resolved data \<Rightarrow>
          (case next_authState data of
             Inl msg \<Rightarrow> (AuthFailure msg, s)
           | Inr a \<Rightarrow>
               (let s1 = s\<lparr>authState := a\<rparr>;
                    s2 = (case axiosInstance s1 of
                            None \<Rightarrow> s1
                          | Some ax \<Rightarrow>
                              s1\<lparr>axiosInstance :=
                                   Some (ax\<lparr>common_Authorization := Some (bearer (token a))\<rparr>)\<rparr>)
                in case connectWebSocket new_WebSocket (userId a) s2 of
                     (Some msg, s3) \<Rightarrow> (AuthFailure msg, s3)
                   | (None, s3) \<Rightarrow>
                       (let s4 = startConnectionMonitoring s3;
                            s5 = send_to_mainWindow ''user-data''
                                   (UserData (userDataToSend (authState s4))) s4;
                            s6 = send_to_mainWindow ''trigger-preload'' NoPayload s5
                        in (AuthSuccess (authState s6), s6)))))"


subsection \<open>Logout\<close>

definition logoutUser :: "state \<Rightarrow> state" where
  "logoutUser s =
     (let s1 = stopConnectionMonitoring s;
          s2 = s1\<lparr>mainProcessWebSocket := map_option ws_close (mainProcessWebSocket s1)\<rparr>;
          s3 = (case axiosInstance s2 of
                  None \<Rightarrow> s2
                | Some ax \<Rightarrow>
                    s2\<lparr>axiosInstance := Some (ax\<lparr>common_Authorization := None\<rparr>)\<rparr>)
      in s3\<lparr>authState := empty_auth\<rparr>)"

subsection \<open>Queries and proxies invoked by the windows\<close>

text \<open>\<^verbatim>\<open>ipcMain.handle('get-user-data')\<close>: \<open>None\<close> is the \<^verbatim>\<open>null\<close> it returns.\<close>

definition get_user_data :: "state \<Rightarrow> snapshot option" where
  "get_user_data s =
     (if \<not> isAuthenticated (authState s) then None
      else Some (userDataToSend (authState s)))"

text \<open>
  \<^verbatim>\<open>ipcMain.handle('api-call')\<close>. The result is \<^verbatim>\<open>{success: true, data}\<close> or
  \<^verbatim>\<open>{success: false, error, status}\<close>. The request is issued when the handler runs and the
  handler changes no variable, so the outcome of the request is an argument.
\<close>

datatype api_result = ApiSuccess jsval | ApiFailure jsval jsval

definition api_settle :: "http_outcome \<Rightarrow> state \<Rightarrow> api_result \<times> state" where
  "api_settle outcome s =
     (case outcome of
        Resolved d \<Rightarrow> (ApiSuccess d, s)
      | Rejected e \<Rightarrow>
          (ApiFailure
             (js_or (case ae_response e of
                       None \<Rightarrow> JUndefined
                     | Some r \<Rightarrow>
                         if nullish (resp_data r) then JUndefined
                         else read_prop (resp_data r) ''message'')
                    (JStr (ae_message e)))
             (case ae_response e of None \<Rightarrow> JUndefined | Some r \<Rightarrow> resp_status r),
           s))"

definition api_call ::
    "jsval \<Rightarrow> jsval \<Rightarrow> jsval \<Rightarrow> http_outcome \<Rightarrow> state \<Rightarrow> api_result \<times> state" where
  "api_call method endpoint data outcome s =
     (case axiosInstance s of
        None \<Rightarrow> (ApiFailure (JStr ''API client not initialized'') JUndefined, s)
      | Some ax \<Rightarrow>
          (case method of
             JStr m \<Rightarrow>
               (let lm = toLowerCase m in
                if lm = ''get'' then api_settle outcome (axios_request GET endpoint JUndefined s)
                else if lm = ''post'' then api_settle outcome (axios_request POST endpoint data s)
                else if lm = ''put'' then api_settle outcome (axios_request PUT endpoint data s)
                else if lm = ''delete''
                  then api_settle outcome (axios_request DELETE endpoint JUndefined s)
                else (ApiFailure (JStr (''Unsupported HTTP method: '' @ m)) JUndefined, s))
           | _ \<Rightarrow>
               (ApiFailure
                  (JStr (if nullish method then type_error method ''toLowerCase''
                         else ''method.toLowerCase is not a function''))
                  JUndefined,
                s)))"

text \<open>
  \<^verbatim>\<open>ipcMain.handle('websocket-send')\<close>. \<open>stringify\<close> is \<^verbatim>\<open>JSON.stringify\<close>: \<open>Inl\<close> the
  message of the error it throws, \<open>Inr\<close> the text it returns. Sending on an open socket is
  taken not to throw.
\<close>

datatype send_result = SendSuccess | SendFailure string

definition websocket_send ::
    "(jsval \<Rightarrow> string + jsval) \<Rightarrow> jsval \<Rightarrow> state \<Rightarrow> send_result \<times> state" where
  "websocket_send stringify message s =
     (if (case mainProcessWebSocket s of None \<Rightarrow> True | Some w \<Rightarrow> readyState w \<noteq> OPEN)
      then (SendFailure ''WebSocket not connected'', s)
      else (case stringify message of
              Inl msg \<Rightarrow> (SendFailure msg, s)
            | Inr frame \<Rightarrow> (SendSuccess, s\<lparr>trace := trace s @ [WsTransmit frame]\<rparr>)))"

subsection \<open>The error table of the web login modal\<close>




subsection \<open>Windows\<close>

text \<open>
  \<^verbatim>\<open>createAuthWindow\<close> and \<^verbatim>\<open>createMainWindow\<close> open a window and store it in their
  variable. A call of \<^verbatim>\<open>close()\<close> on a window only asks for it: the window leaves the
  live windows when its \<^verbatim>\<open>closed\<close> event arrives (\<open>window_closed\<close>), which also runs
  the handler the window was given: it resets the variable of the window's kind. The
  calls of \<^verbatim>\<open>app.quit\<close> end the process and are left out.
\<close>

definition createAuthWindow :: "state \<Rightarrow> state" where
  "createAuthWindow s =
     s\<lparr>authWindow := Some (next_handle s),
       windows := windows s @ [(next_handle s, AuthWin)],
       next_handle := Suc (next_handle s)\<rparr>"

definition createMainWindow :: "state \<Rightarrow> state" where
  "createMainWindow s =
     s\<lparr>mainWindow := Some (next_handle s),
       windows := windows s @ [(next_handle s, MainWin)],
       awaiting_ready := awaiting_ready s @ [next_handle s],
       next_handle := Suc (next_handle s)\<rparr>"

definition window_closed :: "nat \<Rightarrow> state \<Rightarrow> state" where
  "window_closed w s =
     (case map_of (windows s) w of
        None \<Rightarrow> s
      | Some k \<Rightarrow>
          (let s1 = s\<lparr>windows := filter (\<lambda>x. fst x \<noteq> w) (windows s),
                       awaiting_ready := removeAll w (awaiting_ready s)\<rparr>
           in case k of
                AuthWin \<Rightarrow> s1\<lparr>authWindow := None\<rparr>
              | MainWin \<Rightarrow> s1\<lparr>mainWindow := None\<rparr>))"

text \<open>
  The \<^verbatim>\<open>ready-to-show\<close> handler of a main window reads the variable \<^verbatim>\<open>mainWindow\<close>,
  not the window it was attached to; with the variable reset, \<^verbatim>\<open>mainWindow.show()\<close>
  throws and nothing is sent.
\<close>

definition mainWindow_ready_to_show :: "state \<Rightarrow> state" where
  "mainWindow_ready_to_show s =
     send_to_mainWindow ''user-data'' (UserData (userDataToSend (authState s))) s"

text \<open>The rest of \<^verbatim>\<open>ipcMain.handle('authenticate-user')\<close>, after \<^verbatim>\<open>authenticateUser\<close>.\<close>

definition ipc_authenticate_user_finish :: "auth_result \<Rightarrow> state \<Rightarrow> state" where
  "ipc_authenticate_user_finish result s =
     (case result of
        AuthFailure msg \<Rightarrow> s
      | AuthSuccess a \<Rightarrow> createMainWindow (s\<lparr>authWindow := None\<rparr>))"

text \<open>\<^verbatim>\<open>ipcMain.on('logout')\<close>\<close>

definition ipc_logout :: "state \<Rightarrow> state" where
  "ipc_logout s = createAuthWindow ((logoutUser s)\<lparr>mainWindow := None\<rparr>)"

text \<open>\<^verbatim>\<open>app.whenReady()\<close>: the state in which the first window can invoke a handler.\<close>

definition app_ready :: state where
  "app_ready = createAuthWindow (initializeMainProcessClients initial_state)"


section \<open>The event loop\<close>

text \<open>
  Everything that can run in the main process after start-up, one event at a time: the
  handlers invoked by the windows, the settling of a login request in flight, the timer,
  the events of the current socket and of the unreferenced ones, and the events of the
  windows and of the application. An event that cannot occur in a state leaves it as it
  is. An error that leaves the timer callback is taken not to end the process.
\<close>

datatype event =
    AuthenticateUser jsval jsval
  | LoginSettles http_outcome
  | GetUserData
  | Logout
  | ApiCall jsval jsval jsval http_outcome
  | WebsocketSend jsval "string + jsval"
  | Tick nat
  | SocketOpens
  | SocketCloses
  | SocketError string
  | SocketMessage "jsval option"
  | OrphanCloses nat
  | OrphanError nat string
  | OrphanMessage nat "jsval option"
  | WindowClosed nat
  | MainWindowReady nat
  | WindowAllClosed
  | BeforeQuit
  | Activate

fun step :: "ws_constructor \<Rightarrow> event \<Rightarrow> state \<Rightarrow> state" where
  "step new_WebSocket (AuthenticateUser em pw) s =
     (case authenticateUser_begin em pw s of
        (Some r, s1) \<Rightarrow> ipc_authenticate_user_finish r s1
      | (None, s1) \<Rightarrow> s1\<lparr>pending_logins := Suc (pending_logins s1)\<rparr>)"
| "step new_WebSocket (LoginSettles outcome) s =
     (if pending_logins s = 0 then s
      else (case authenticateUser_resume new_WebSocket outcome
                   (s\<lparr>pending_logins := pending_logins s - 1\<rparr>) of
              (r, s1) \<Rightarrow> ipc_authenticate_user_finish r s1))"
| "step new_WebSocket GetUserData s = s"
| "step new_WebSocket Logout s = ipc_logout s"
| "step new_WebSocket (ApiCall method endpoint data outcome) s =
     snd (api_call method endpoint data outcome s)"
| "step new_WebSocket (WebsocketSend message serialized) s =
     snd (websocket_send (\<lambda>m. serialized) message s)"
| "step new_WebSocket (Tick t) s =
     (if t \<in> set (timers s) then connectionMonitorTick new_WebSocket s else s)"
| "step new_WebSocket SocketOpens s =
     (case mainProcessWebSocket s of
        None \<Rightarrow> s
      | Some w \<Rightarrow>
          if readyState w = CONNECTING
          then ws_on_open (s\<lparr>mainProcessWebSocket := Some (w\<lparr>readyState := OPEN\<rparr>)\<rparr>)
          else s)"
| "step new_WebSocket SocketCloses s =
     (case mainProcessWebSocket s of
        None \<Rightarrow> s
      | Some w \<Rightarrow>
          if readyState w \<noteq> CLOSED
          then ws_on_close (s\<lparr>mainProcessWebSocket := Some (w\<lparr>readyState := CLOSED\<rparr>)\<rparr>)
          else s)"
| "step new_WebSocket (SocketError msg) s =
     (case mainProcessWebSocket s of
        None \<Rightarrow> s
      | Some w \<Rightarrow> if readyState w \<noteq> CLOSED then ws_on_error msg s else s)"
| "step new_WebSocket (SocketMessage parsed) s =
     (case mainProcessWebSocket s of
        None \<Rightarrow> s
      | Some w \<Rightarrow>
          if readyState w = OPEN \<or> readyState w = CLOSING then ws_on_message parsed s else s)"
| "step new_WebSocket (OrphanCloses i) s =
     (if i < length (orphans s) \<and> readyState (orphans s ! i) \<noteq> CLOSED
      then ws_on_close (s\<lparr>orphans := (orphans s)[i := (orphans s ! i)\<lparr>readyState := CLOSED\<rparr>]\<rparr>)
      else s)"
| "step new_WebSocket (OrphanError i msg) s =
     (if i < length (orphans s) \<and> readyState (orphans s ! i) \<noteq> CLOSED
      then ws_on_error msg s else s)"
| "step new_WebSocket (OrphanMessage i parsed) s =
     (if i < length (orphans s) \<and> readyState (orphans s ! i) = CLOSING
      then ws_on_message parsed s else s)"
| "step new_WebSocket (WindowClosed w) s = window_closed w s"
| "step new_WebSocket (MainWindowReady w) s =
     (if w \<in> set (awaiting_ready s)
      then mainWindow_ready_to_show (s\<lparr>awaiting_ready := removeAll w (awaiting_ready s)\<rparr>)
      else s)"
| "step new_WebSocket WindowAllClosed s = (if windows s = [] then logoutUser s else s)"
| "step new_WebSocket BeforeQuit s = logoutUser s"
| "step new_WebSocket Activate s = (if windows s = [] then createAuthWindow s else s)"

definition run :: "ws_constructor \<Rightarrow> event list \<Rightarrow> state \<Rightarrow> state" where
  "run new_WebSocket evs s = foldl (\<lambda>s e. step new_WebSocket e s) s evs"


section \<open>Invariant and sample inputs\<close>

text \<open>
  What holds in every state the event loop reaches: the client exists, the only live
  timer is the one in \<^verbatim>\<open>connectionMonitorInterval\<close>, and a session that is not
  authenticated is the empty one, with no timer, no default header and no socket that is
  connecting or open.
\<close>

definition session_inv :: "state \<Rightarrow> bool" where
  "session_inv s =
     (axiosInstance s \<noteq> None \<and>
      timers s = (case connectionMonitorInterval s of None \<Rightarrow> [] | Some t \<Rightarrow> [t]) \<and>
      (isAuthenticated (authState s) \<or>
         (authState s = empty_auth \<and> connectionMonitorInterval s = None \<and>
          (case axiosInstance s of None \<Rightarrow> True | Some ax \<Rightarrow> common_Authorization ax = None) \<and>
          (case mainProcessWebSocket s of
             None \<Rightarrow> True
           | Some w \<Rightarrow> readyState w = CLOSING \<or> readyState w = CLOSED))))"

text \<open>
  A login response that reports success conforms to the remote interface when it carries
  a token (\<^verbatim>\<open>token\<close>, or \<^verbatim>\<open>customToken\<close> when that is falsy) and a user with a
  \<^verbatim>\<open>userID\<close>, neither null nor undefined. Every other event conforms.
\<close>

fun conforming :: "event \<Rightarrow> bool" where
  "conforming (LoginSettles (Resolved data)) =
     (if truthy (read_prop data ''success'')
      then \<not> nullish (js_or (read_prop data ''token'') (read_prop data ''customToken''))
           \<and> \<not> nullish (read_prop (read_prop data ''user'') ''userID'')
      else True)"
| "conforming e = True"

text \<open>A well-formed success response, and the two events of a login that gets it.\<close>

definition login_ok :: jsval where
  "login_ok =
     JObj [(''success'', JBool True), (''token'', JStr ''tok''),
           (''user'', JObj [(''userID'', JStr ''u1''), (''username'', JStr ''ann''),
                            (''email'', JStr ''ann@example.org'')])]"

definition login_events :: "event list" where
  "login_events =
     [AuthenticateUser (JStr ''ann@example.org'') (JStr ''secret''),
      LoginSettles (Resolved login_ok)]"


text \<open>A response that reports success and carries neither token nor user fields.\<close>

definition login_bare :: jsval where
  "login_bare = JObj [(''success'', JBool True), (''user'', JObj [])]"

text \<open>A response that reports success and carries a user without a name.\<close>

definition login_no_username :: jsval where
  "login_no_username =
     JObj [(''success'', JBool True), (''token'', JStr ''tok''),
           (''user'', JObj [(''userID'', JStr ''u1''), (''email'', JStr ''ann@example.org'')])]"

text \<open>A response that reports success and carries a user whose email is null.\<close>

definition login_null_email :: jsval where
  "login_null_email =
     JObj [(''success'', JBool True), (''token'', JStr ''tok''),
           (''user'', JObj [(''userID'', JStr ''u1''), (''username'', JStr ''ann''),
                            (''email'', JNull)])]"

text \<open>A response that reports success and carries a user id with a number sign in it.\<close>

definition login_fragment :: jsval where
  "login_fragment =
     JObj [(''success'', JBool True), (''token'', JStr ''tok''),
           (''user'', JObj [(''userID'', JStr ''u#1''), (''username'', JStr ''ann''),
                            (''email'', JStr ''ann@example.org'')])]"

text \<open>
  A socket constructor that refuses a URL with a fragment, as version 8 of the \<^verbatim>\<open>ws\<close>
  package does, and accepts every other URL.
\<close>

definition refuse_fragment :: ws_constructor where
  "refuse_fragment url =
     (if CHR ''#'' \<in> set url then Some ''The URL contains a fragment identifier'' else None)"






section \<open>Preservation of the invariant\<close>

lemma inv_app_ready: "session_inv app_ready"
  by (simp add: session_inv_def app_ready_def initial_state_def createAuthWindow_def
      initializeMainProcessClients_def)

lemma inv_frame [simp]:
  "session_inv (s\<lparr>trace := tr\<rparr>) = session_inv s"
  "session_inv (s\<lparr>windows := wl\<rparr>) = session_inv s"
  "session_inv (s\<lparr>orphans := os\<rparr>) = session_inv s"
  "session_inv (s\<lparr>pending_logins := n\<rparr>) = session_inv s"
  "session_inv (s\<lparr>awaiting_ready := ar\<rparr>) = session_inv s"
  "session_inv (s\<lparr>next_handle := h\<rparr>) = session_inv s"
  "session_inv (s\<lparr>mainWindow := mw\<rparr>) = session_inv s"
  "session_inv (s\<lparr>authWindow := aw\<rparr>) = session_inv s"
  by (simp_all add: session_inv_def)

lemma inv_broadcast [simp]: "session_inv (broadcastToAllWindows c d s) = session_inv s"
  by (simp add: broadcastToAllWindows_def)

lemma inv_send_main [simp]: "session_inv (send_to_mainWindow c d s) = session_inv s"
  by (simp add: send_to_mainWindow_def split: option.splits)

lemma inv_axios_request [simp]: "session_inv (axios_request m u b s) = session_inv s"
  by (simp add: axios_request_def)

lemma inv_createAuthWindow [simp]: "session_inv (createAuthWindow s) = session_inv s"
  by (simp add: createAuthWindow_def)

lemma inv_createMainWindow [simp]: "session_inv (createMainWindow s) = session_inv s"
  by (simp add: createMainWindow_def)

lemma inv_window_closed [simp]: "session_inv (window_closed w s) = session_inv s"
  by (simp add: window_closed_def Let_def split: option.splits window_kind.splits)

lemma ws_close_not_open:
  "readyState (ws_close w) = CLOSING \<or> readyState (ws_close w) = CLOSED"
  by (cases "readyState w") (simp_all add: ws_close_def)

lemma inv_logoutUser: "session_inv s \<Longrightarrow> session_inv (logoutUser s)"
  using ws_close_not_open
  by (auto simp: session_inv_def logoutUser_def stopConnectionMonitoring_def Let_def
      split: option.splits)

lemma inv_connectWebSocket:
  "session_inv s \<Longrightarrow> isAuthenticated (authState s) \<Longrightarrow>
   session_inv (snd (connectWebSocket nw uid s))"
  by (simp add: session_inv_def connectWebSocket_def Let_def split: option.splits)

lemma auth_connectWebSocket [simp]:
  "authState (snd (connectWebSocket nw uid s)) = authState s"
  by (simp add: connectWebSocket_def Let_def split: option.splits)

lemma inv_tick: "session_inv s \<Longrightarrow> session_inv (connectionMonitorTick nw s)"
proof -
  assume i: "session_inv s"
  show ?thesis
  proof (cases "isAuthenticated (authState s)")
    case False
    with i show ?thesis by (simp add: connectionMonitorTick_def)
  next
    case True
    from inv_connectWebSocket [OF i True, of nw "userId (authState s)"] i True
    show ?thesis
      by (cases "connectWebSocket nw (userId (authState s)) s")
         (simp add: connectionMonitorTick_def split: option.splits)
  qed
qed

lemma next_authState_auth: "next_authState data = Inr a \<Longrightarrow> isAuthenticated a"
  by (auto simp: next_authState_def Let_def split: sum.splits if_splits)

lemma inv_set_auth:
  assumes "session_inv s" "isAuthenticated a"
  shows "session_inv
           (case axiosInstance (s\<lparr>authState := a\<rparr>) of
              None \<Rightarrow> s\<lparr>authState := a\<rparr>
            | Some ax \<Rightarrow>
                s\<lparr>authState := a,
                  axiosInstance := Some (ax\<lparr>common_Authorization := hdr\<rparr>)\<rparr>)"
    and "isAuthenticated
           (authState
              (case axiosInstance (s\<lparr>authState := a\<rparr>) of
                 None \<Rightarrow> s\<lparr>authState := a\<rparr>
               | Some ax \<Rightarrow>
                   s\<lparr>authState := a,
                     axiosInstance := Some (ax\<lparr>common_Authorization := hdr\<rparr>)\<rparr>))"
  using assms by (auto simp: session_inv_def split: option.splits)

lemma inv_start:
  "session_inv s \<Longrightarrow> isAuthenticated (authState s) \<Longrightarrow>
   session_inv (startConnectionMonitoring s)"
  by (auto simp: session_inv_def startConnectionMonitoring_def Let_def split: option.splits)

lemma inv_resume:
  assumes "session_inv s"
  shows "session_inv (snd (authenticateUser_resume nw outcome s))"
proof (cases outcome)
  case (Rejected e)
  with assms show ?thesis by (simp add: authenticateUser_resume_def)
next
  case (Resolved data)
  show ?thesis
  proof (cases "next_authState data")
    case (Inl msg)
    with assms Resolved show ?thesis by (simp add: authenticateUser_resume_def)
  next
    case (Inr a)
    let ?s2 = "case axiosInstance (s\<lparr>authState := a\<rparr>) of
                 None \<Rightarrow> s\<lparr>authState := a\<rparr>
               | Some ax \<Rightarrow>
                   s\<lparr>authState := a,
                     axiosInstance :=
                       Some (ax\<lparr>common_Authorization := Some (bearer (token a))\<rparr>)\<rparr>"
    note a = next_authState_auth [OF Inr]
    note i2 = inv_set_auth [OF assms a, of "Some (bearer (token a))"]
    obtain r s3 where c: "connectWebSocket nw (userId a) ?s2 = (r, s3)"
      by (cases "connectWebSocket nw (userId a) ?s2")
    from inv_connectWebSocket [OF i2, of nw "userId a"] c have i3: "session_inv s3" by simp
    have "authState s3 = authState ?s2"
      by (metis auth_connectWebSocket c snd_conv)
    with i2(2) have a3: "isAuthenticated (authState s3)" by simp
    have e: "authenticateUser_resume nw outcome s =
               (case r of
                  Some msg \<Rightarrow> (AuthFailure msg, s3)
                | None \<Rightarrow>
                    (AuthSuccess
                       (authState
                          (send_to_mainWindow ''trigger-preload'' NoPayload
                             (send_to_mainWindow ''user-data''
                                (UserData
                                   (userDataToSend (authState (startConnectionMonitoring s3))))
                                (startConnectionMonitoring s3)))),
                     send_to_mainWindow ''trigger-preload'' NoPayload
                       (send_to_mainWindow ''user-data''
                          (UserData (userDataToSend (authState (startConnectionMonitoring s3))))
                          (startConnectionMonitoring s3))))"
      using Resolved Inr c
      by (simp add: authenticateUser_resume_def Let_def split: option.splits)
    show ?thesis
      unfolding e using i3 inv_start [OF i3 a3] by (cases r) simp_all
  qed
qed

lemma inv_finish [simp]: "session_inv (ipc_authenticate_user_finish r s) = session_inv s"
  by (simp add: ipc_authenticate_user_finish_def split: auth_result.splits)

lemma inv_api_call [simp]: "session_inv (snd (api_call m e d out s)) = session_inv s"
  by (simp add: api_call_def api_settle_def Let_def
      split: option.splits jsval.splits http_outcome.splits)

lemma inv_websocket_send [simp]: "session_inv (snd (websocket_send f m s)) = session_inv s"
  by (simp add: websocket_send_def split: option.splits sum.splits)

lemma inv_socket_open:
  "session_inv s \<Longrightarrow> mainProcessWebSocket s = Some w \<Longrightarrow> readyState w = CONNECTING \<Longrightarrow>
   session_inv (s\<lparr>mainProcessWebSocket := Some (w\<lparr>readyState := OPEN\<rparr>)\<rparr>)"
  by (auto simp: session_inv_def)

lemma inv_socket_closed:
  "session_inv s \<Longrightarrow>
   session_inv (s\<lparr>mainProcessWebSocket := Some (w\<lparr>readyState := CLOSED\<rparr>)\<rparr>)"
  by (auto simp: session_inv_def)

lemma inv_step: "session_inv s \<Longrightarrow> session_inv (step nw e s)"
proof (cases e)
  case (AuthenticateUser em pw)
  then show "session_inv s \<Longrightarrow> ?thesis"
    by (simp add: authenticateUser_begin_def split: option.splits)
next
  case (LoginSettles outcome)
  assume i: "session_inv s"
  have "session_inv (s\<lparr>pending_logins := pending_logins s - 1\<rparr>)" using i by simp
  from inv_resume [OF this, of nw outcome] show ?thesis using i LoginSettles
    by (auto split: prod.splits)
next
  case (Tick t)
  then show "session_inv s \<Longrightarrow> ?thesis" by (simp add: inv_tick)
next
  case SocketOpens
  then show "session_inv s \<Longrightarrow> ?thesis"
    by (simp add: ws_on_open_def inv_socket_open split: option.splits)
next
  case SocketCloses
  then show "session_inv s \<Longrightarrow> ?thesis"
    by (simp add: ws_on_close_def inv_socket_closed split: option.splits)
qed (simp_all add: ipc_logout_def inv_logoutUser ws_on_error_def ws_on_message_def
      ws_on_close_def mainWindow_ready_to_show_def split: option.splits)

lemma inv_run: "session_inv s \<Longrightarrow> session_inv (run nw evs s)"
  unfolding run_def by (induction evs arbitrary: s) (simp_all add: inv_step)

lemma inv_reachable: "session_inv (run nw evs app_ready)"
  by (simp add: inv_run inv_app_ready)

section \<open>Effects of the operations\<close>

lemma run_Nil [simp]: "run nw [] s = s"
  by (simp add: run_def)

lemma run_Cons [simp]: "run nw (e # evs) s = run nw evs (step nw e s)"
  by (simp add: run_def)

lemma run_append: "run nw (xs @ ys) s = run nw ys (run nw xs s)"
  by (simp add: run_def)

lemma run_snoc: "run nw (evs @ [e]) s = step nw e (run nw evs s)"
  by (simp add: run_def)

lemma reachable_axios: "\<exists>ax. axiosInstance (run nw evs app_ready) = Some ax"
  using inv_reachable [of nw evs] by (auto simp: session_inv_def)

lemma refuse_fragment_u1: "refuse_fragment (wsUrl (JStr ''u1'')) = None"
  by (simp add: refuse_fragment_def wsUrl_def)

lemma refuse_fragment_hash:
  "refuse_fragment (wsUrl (JStr ''u#1'')) = Some ''The URL contains a fragment identifier''"
  by (simp add: refuse_fragment_def wsUrl_def)

lemma resume_rejected:
  "authenticateUser_resume nw (Rejected e) s = (AuthFailure (ae_message e), s)"
  by (simp add: authenticateUser_resume_def)

lemma resume_thrown:
  "next_authState data = Inl msg \<Longrightarrow>
   authenticateUser_resume nw (Resolved data) s = (AuthFailure msg, s)"
  by (simp add: authenticateUser_resume_def)

lemma connect_accepted:
  "nw (wsUrl uid) = None \<Longrightarrow>
   connectWebSocket nw uid s =
     (None,
      s\<lparr>orphans :=
           orphans s @ (case mainProcessWebSocket s of None \<Rightarrow> [] | Some w \<Rightarrow> [ws_close w]),
         mainProcessWebSocket := Some \<lparr>ws_url = wsUrl uid, readyState = CONNECTING\<rparr>,
         trace := trace s @ [WsConnect (wsUrl uid)]\<rparr>)"
  by (cases "mainProcessWebSocket s") (simp_all add: connectWebSocket_def Let_def)

lemma connect_refused:
  "nw (wsUrl uid) = Some msg \<Longrightarrow>
   connectWebSocket nw uid s =
     (Some msg, s\<lparr>mainProcessWebSocket := map_option ws_close (mainProcessWebSocket s)\<rparr>)"
  by (simp add: connectWebSocket_def Let_def)

text \<open>A success response, with a constructor that accepts the URL.\<close>

lemmas resume_accepted =
  authenticateUser_resume_def Let_def connect_accepted startConnectionMonitoring_def
  send_to_mainWindow_def


lemma resume_socket:
  "next_authState data = Inr a \<Longrightarrow> nw (wsUrl (userId a)) = None \<Longrightarrow>
   mainProcessWebSocket (snd (authenticateUser_resume nw (Resolved data) s)) =
     Some \<lparr>ws_url = wsUrl (userId a), readyState = CONNECTING\<rparr>"
  by (simp add: resume_accepted split: option.splits)





text \<open>A success response, with a constructor that throws on the URL.\<close>

lemma resume_refused:
  assumes "next_authState data = Inr a" and "nw (wsUrl (userId a)) = Some msg"
  shows "fst (authenticateUser_resume nw (Resolved data) s) = AuthFailure msg"
    and "mainProcessWebSocket (snd (authenticateUser_resume nw (Resolved data) s)) =
           map_option ws_close (mainProcessWebSocket s)"
    and "connectionMonitorInterval (snd (authenticateUser_resume nw (Resolved data) s)) =
           connectionMonitorInterval s"
    and "timers (snd (authenticateUser_resume nw (Resolved data) s)) = timers s"
    and "trace (snd (authenticateUser_resume nw (Resolved data) s)) = trace s"
  using assms
  by (simp_all add: authenticateUser_resume_def Let_def connect_refused split: option.splits)

text \<open>A success response, whatever the constructor does.\<close>

lemma resume_authState:
  assumes "next_authState data = Inr a"
  shows "authState (snd (authenticateUser_resume nw (Resolved data) s)) = a"
proof (cases "nw (wsUrl (userId a))")
  case None
  with assms show ?thesis by (simp add: resume_accepted split: option.splits)
next
  case (Some msg)
  with assms show ?thesis
    by (simp add: authenticateUser_resume_def Let_def connect_refused split: option.splits)
qed



lemma next_authState_login_ok:
  "next_authState login_ok =
     Inr \<lparr>isAuthenticated = True, token = JStr ''tok'', userId = JStr ''u1'',
          username = JStr ''ann'', email = JStr ''ann@example.org'',
          userData =
            Some \<lparr>ud_userId = JStr ''u1'', ud_username = JStr ''ann'',
                  ud_email = JStr ''ann@example.org'',
                  ownedCommunities = JArr [], memberCommunities = JArr []\<rparr>\<rparr>"
  by (simp add: login_ok_def next_authState_def get_prop_def read_prop_def js_or_def
      nullish_def Let_def)

lemma next_authState_login_fragment:
  "next_authState login_fragment =
     Inr \<lparr>isAuthenticated = True, token = JStr ''tok'', userId = JStr ''u#1'',
          username = JStr ''ann'', email = JStr ''ann@example.org'',
          userData =
            Some \<lparr>ud_userId = JStr ''u#1'', ud_username = JStr ''ann'',
                  ud_email = JStr ''ann@example.org'',
                  ownedCommunities = JArr [], memberCommunities = JArr []\<rparr>\<rparr>"
  by (simp add: login_fragment_def next_authState_def get_prop_def read_prop_def js_or_def
      nullish_def Let_def)


text \<open>
  A login whose response reports success and carries a user id that the socket
  constructor refuses: the error is caught after the session record has been assigned, so
  the call returns a failure and leaves an authenticated session record, with no new
  socket and no timer.
\<close>

lemma login_socket_refused:
  "fst (authenticateUser_resume refuse_fragment (Resolved login_fragment) s) =
     AuthFailure ''The URL contains a fragment identifier''"
  "isAuthenticated
     (authState (snd (authenticateUser_resume refuse_fragment (Resolved login_fragment) s)))"
  "connectionMonitorInterval
     (snd (authenticateUser_resume refuse_fragment (Resolved login_fragment) s)) =
     connectionMonitorInterval s"
  "trace (snd (authenticateUser_resume refuse_fragment (Resolved login_fragment) s)) = trace s"
proof -
  note n = next_authState_login_fragment
  have r: "refuse_fragment
             (wsUrl (userId \<lparr>isAuthenticated = True, token = JStr ''tok'', userId = JStr ''u#1'',
          username = JStr ''ann'', email = JStr ''ann@example.org'',
          userData =
            Some \<lparr>ud_userId = JStr ''u#1'', ud_username = JStr ''ann'',
                  ud_email = JStr ''ann@example.org'',
                  ownedCommunities = JArr [], memberCommunities = JArr []\<rparr>\<rparr>)) =
           Some ''The URL contains a fragment identifier''"
    using refuse_fragment_hash by simp
  show "fst (authenticateUser_resume refuse_fragment (Resolved login_fragment) s) =
     AuthFailure ''The URL contains a fragment identifier''"
    by (rule resume_refused(1) [where nw = refuse_fragment, OF n r])
  show "isAuthenticated
     (authState (snd (authenticateUser_resume refuse_fragment (Resolved login_fragment) s)))"
    unfolding resume_authState [OF n] by simp
  show "connectionMonitorInterval
     (snd (authenticateUser_resume refuse_fragment (Resolved login_fragment) s)) =
     connectionMonitorInterval s"
    by (rule resume_refused(3) [where nw = refuse_fragment, OF n r])
  show "trace (snd (authenticateUser_resume refuse_fragment (Resolved login_fragment) s)) = trace s"
    by (rule resume_refused(5) [where nw = refuse_fragment, OF n r])
qed


lemma next_authState_failure:
  "next_authState data = Inl msg \<Longrightarrow>
   msg = (if nullish data then type_error data ''success''
          else if \<not> truthy (read_prop data ''success'')
            then to_string (js_or (read_prop data ''message'') (JStr ''Login failed''))
          else type_error (read_prop data ''user'') ''userID'')"
  by (auto simp: next_authState_def get_prop_def Let_def split: if_splits)


lemma axios_request_fields [simp]:
  "authState (axios_request m u b s) = authState s"
  "mainProcessWebSocket (axios_request m u b s) = mainProcessWebSocket s"
  "axiosInstance (axios_request m u b s) = axiosInstance s"
  "connectionMonitorInterval (axios_request m u b s) = connectionMonitorInterval s"
  "timers (axios_request m u b s) = timers s"
  "orphans (axios_request m u b s) = orphans s"
  "windows (axios_request m u b s) = windows s"
  "mainWindow (axios_request m u b s) = mainWindow s"
  "next_handle (axios_request m u b s) = next_handle s"
  "trace (axios_request m u b s) = trace s @ [HttpRequest m u (request_Authorization s) b]"
  by (simp_all add: axios_request_def)

lemma app_ready_fields:
  "authState app_ready = empty_auth"
  "mainProcessWebSocket app_ready = None"
  "axiosInstance app_ready =
     Some \<lparr>baseURL = ''http://127.0.0.1:3000'', timeout = 10000,
           content_type = ''application/json'', common_Authorization = None\<rparr>"
  "connectionMonitorInterval app_ready = None"
  "mainWindow app_ready = None"
  "windows app_ready = [(0, AuthWin)]"
  "trace app_ready = []"
  "request_Authorization app_ready = None"
  by (simp_all add: app_ready_def initial_state_def createAuthWindow_def
      initializeMainProcessClients_def request_Authorization_def empty_auth_def)


lemma finish_fields [simp]:
  "authState (ipc_authenticate_user_finish r s) = authState s"
  "mainProcessWebSocket (ipc_authenticate_user_finish r s) = mainProcessWebSocket s"
  "axiosInstance (ipc_authenticate_user_finish r s) = axiosInstance s"
  "connectionMonitorInterval (ipc_authenticate_user_finish r s) = connectionMonitorInterval s"
  "timers (ipc_authenticate_user_finish r s) = timers s"
  "trace (ipc_authenticate_user_finish r s) = trace s"
  by (simp_all add: ipc_authenticate_user_finish_def createMainWindow_def
      split: auth_result.splits)

lemma step_login_settles:
  "pending_logins s \<noteq> 0 \<Longrightarrow>
   step nw (LoginSettles outcome) s =
     ipc_authenticate_user_finish
       (fst (authenticateUser_resume nw outcome (s\<lparr>pending_logins := pending_logins s - 1\<rparr>)))
       (snd (authenticateUser_resume nw outcome (s\<lparr>pending_logins := pending_logins s - 1\<rparr>)))"
  by (simp split: prod.splits)

lemma step_authenticate:
  "axiosInstance s = Some ax \<Longrightarrow>
   step nw (AuthenticateUser em pw) s =
     (axios_request POST (JStr ''/api/auth/login'')
        (JObj [(''email'', em), (''password'', pw)]) s)
       \<lparr>pending_logins := Suc (pending_logins s)\<rparr>"
  by (simp add: authenticateUser_begin_def axios_request_def)

lemma run_login_settled:
  assumes "axiosInstance s = Some ax"
  shows "run nw [AuthenticateUser em pw, LoginSettles outcome] s =
     ipc_authenticate_user_finish
       (fst (authenticateUser_resume nw outcome
               (axios_request POST (JStr ''/api/auth/login'')
                  (JObj [(''email'', em), (''password'', pw)]) s)))
       (snd (authenticateUser_resume nw outcome
               (axios_request POST (JStr ''/api/auth/login'')
                  (JObj [(''email'', em), (''password'', pw)]) s)))"
proof -
  let ?s1 = "(axios_request POST (JStr ''/api/auth/login'')
        (JObj [(''email'', em), (''password'', pw)]) s)
       \<lparr>pending_logins := Suc (pending_logins s)\<rparr>"
  have p: "pending_logins ?s1 \<noteq> 0" by simp
  have z: "?s1\<lparr>pending_logins := pending_logins ?s1 - 1\<rparr> =
           axios_request POST (JStr ''/api/auth/login'')
             (JObj [(''email'', em), (''password'', pw)]) s"
    by (simp add: axios_request_def)
  have r: "run nw [AuthenticateUser em pw, LoginSettles outcome] s =
             step nw (LoginSettles outcome) ?s1"
    by (simp only: run_Cons run_Nil step_authenticate [OF assms])
  show ?thesis
    unfolding r step_login_settles [OF p] z ..
qed

lemma run_login_fields:
  assumes "axiosInstance s = Some ax" and "next_authState data = Inr a"
  shows "authState (run nw [AuthenticateUser em pw, LoginSettles (Resolved data)] s) = a"
    and "nw (wsUrl (userId a)) = None \<Longrightarrow>
         mainProcessWebSocket (run nw [AuthenticateUser em pw, LoginSettles (Resolved data)] s) =
           Some \<lparr>ws_url = wsUrl (userId a), readyState = CONNECTING\<rparr>"
  unfolding run_login_settled [OF assms(1)]
  by (simp_all add: resume_authState [OF assms(2)] resume_socket [OF assms(2)])

lemmas run_login_ok =
  run_login_fields(1) [OF app_ready_fields(3) next_authState_login_ok,
    of refuse_fragment "JStr ''ann@example.org''" "JStr ''secret''",
    folded login_events_def]
  run_login_fields(2) [OF app_ready_fields(3) next_authState_login_ok,
    of refuse_fragment "JStr ''ann@example.org''" "JStr ''secret''",
    folded login_events_def, simplified, OF refuse_fragment_u1]

lemma logoutUser_fields:
  "authState (logoutUser s) = empty_auth"
  "mainProcessWebSocket (logoutUser s) = map_option ws_close (mainProcessWebSocket s)"
  "connectionMonitorInterval (logoutUser s) = None"
  "trace (logoutUser s) = trace s"
  "windows (logoutUser s) = windows s"
  "axiosInstance (logoutUser s) =
     map_option (\<lambda>ax. ax\<lparr>common_Authorization := None\<rparr>) (axiosInstance s)"
  by (simp_all add: logoutUser_def stopConnectionMonitoring_def Let_def split: option.splits)

lemma ipc_logout_fields:
  "authState (ipc_logout s) = empty_auth"
  "mainProcessWebSocket (ipc_logout s) = map_option ws_close (mainProcessWebSocket s)"
  by (simp_all add: ipc_logout_def createAuthWindow_def logoutUser_fields)

lemma step_SocketOpens_fields:
  "mainProcessWebSocket s = Some w \<Longrightarrow> readyState w = CONNECTING \<Longrightarrow>
   mainProcessWebSocket (step nw SocketOpens s) = Some (w\<lparr>readyState := OPEN\<rparr>)"
  "authState (step nw SocketOpens s) = authState s"
  by (simp_all add: ws_on_open_def broadcastToAllWindows_def split: option.splits)

lemma tick_authState: "authState (connectionMonitorTick nw s) = authState s"
proof (cases "nw (wsUrl (userId (authState s)))")
  case None
  then show ?thesis
    by (simp add: connectionMonitorTick_def connect_accepted split: option.splits)
next
  case (Some msg)
  then show ?thesis
    by (simp add: connectionMonitorTick_def connect_refused split: option.splits)
qed

lemma api_call_authState: "authState (snd (api_call m e d out s)) = authState s"
  by (simp add: api_call_def api_settle_def Let_def
      split: option.splits jsval.splits http_outcome.splits)

lemma websocket_send_authState: "authState (snd (websocket_send f m s)) = authState s"
  by (simp add: websocket_send_def split: option.splits sum.splits)

lemma broadcast_fields [simp]:
  "authState (broadcastToAllWindows c d s) = authState s"
  "mainProcessWebSocket (broadcastToAllWindows c d s) = mainProcessWebSocket s"
  "windows (broadcastToAllWindows c d s) = windows s"
  "trace (broadcastToAllWindows c d s) =
     trace s @ map (\<lambda>w. IpcSend (fst w) c d) (windows s)"
  by (simp_all add: broadcastToAllWindows_def)

lemma window_closed_authState: "authState (window_closed w s) = authState s"
  by (simp add: window_closed_def Let_def split: option.splits window_kind.splits)

lemma step_authState_cases:
  "authState (step nw e s) = authState s \<or> authState (step nw e s) = empty_auth \<or>
   (\<exists>data a. e = LoginSettles (Resolved data) \<and> next_authState data = Inr a \<and>
             authState (step nw e s) = a)"
proof (cases e)
  case (AuthenticateUser em pw)
  then show ?thesis
    by (simp add: authenticateUser_begin_def axios_request_def split: option.splits)
next
  case (LoginSettles outcome)
  show ?thesis
  proof (cases "pending_logins s = 0")
    case True
    with LoginSettles show ?thesis by simp
  next
    case False
    let ?s0 = "s\<lparr>pending_logins := pending_logins s - 1\<rparr>"
    note st = step_login_settles [OF False, of nw outcome]
    show ?thesis
    proof (cases outcome)
      case (Rejected err)
      with LoginSettles st show ?thesis by (simp add: resume_rejected)
    next
      case (Resolved data)
      show ?thesis
      proof (cases "next_authState data")
        case (Inl msg)
        with LoginSettles Resolved st show ?thesis by (simp add: resume_thrown)
      next
        case (Inr a)
        from resume_authState [OF Inr, of nw ?s0] LoginSettles Resolved st Inr
        show ?thesis by simp
      qed
    qed
  qed
next
  case Logout
  then show ?thesis by (simp add: ipc_logout_fields)
next
  case (ApiCall m ep d out)
  then show ?thesis by (simp add: api_call_authState)
next
  case (WebsocketSend m ser)
  then show ?thesis by (simp add: websocket_send_authState)
next
  case (Tick t)
  then show ?thesis by (simp add: tick_authState)
next
  case (WindowClosed w)
  then show ?thesis by (simp add: window_closed_authState)
next
  case WindowAllClosed
  then show ?thesis by (simp add: logoutUser_fields)
next
  case BeforeQuit
  then show ?thesis by (simp add: logoutUser_fields)
qed (simp_all add: ws_on_open_def ws_on_close_def ws_on_error_def ws_on_message_def
      mainWindow_ready_to_show_def send_to_mainWindow_def createAuthWindow_def
      split: option.splits)

lemma next_authState_Inr_fields:
  "next_authState data = Inr a \<Longrightarrow>
   truthy (read_prop data ''success'') \<and>
   token a = js_or (read_prop data ''token'') (read_prop data ''customToken'') \<and>
   userId a = read_prop (read_prop data ''user'') ''userID''"
  by (auto simp: next_authState_def get_prop_def Let_def split: if_splits)

section \<open>Logout while a login is pending\<close>




section \<open>Failing login\<close>







section \<open>Logout and the events that follow it\<close>











section \<open>Successful login\<close>




section \<open>Token and user id of an authenticated session\<close>

lemma next_authState_login_bare:
  "next_authState login_bare =
     Inr \<lparr>isAuthenticated = True, token = JUndefined, userId = JUndefined,
          username = JUndefined, email = JUndefined,
          userData =
            Some \<lparr>ud_userId = JUndefined, ud_username = JUndefined, ud_email = JUndefined,
                  ownedCommunities = JArr [], memberCommunities = JArr []\<rparr>\<rparr>"
  by (simp add: login_bare_def next_authState_def get_prop_def read_prop_def js_or_def
      nullish_def Let_def)

text \<open>
  C5 as stated fails: the remote answers a login with a response that reports success
  and carries neither a token nor a user id. The response is applied as it is, and the
  session record is authenticated with both fields undefined.
\<close>

theorem authenticated_without_token_counterexample:
  "isAuthenticated
     (authState (run refuse_fragment
                   [AuthenticateUser (JStr ''ann@example.org'') (JStr ''secret''),
                      LoginSettles (Resolved login_bare)] app_ready)) \<and>
   token
     (authState (run refuse_fragment
                   [AuthenticateUser (JStr ''ann@example.org'') (JStr ''secret''),
                      LoginSettles (Resolved login_bare)] app_ready)) = JUndefined \<and>
   userId
     (authState (run refuse_fragment
                   [AuthenticateUser (JStr ''ann@example.org'') (JStr ''secret''),
                      LoginSettles (Resolved login_bare)] app_ready)) = JUndefined"
  by (simp only: run_login_fields(1) [OF app_ready_fields(3) next_authState_login_bare]
      auth_state.simps simp_thms)

lemma present_step:
  assumes "conforming e"
    and "isAuthenticated (authState s) \<longrightarrow>
         \<not> nullish (token (authState s)) \<and> \<not> nullish (userId (authState s))"
  shows "isAuthenticated (authState (step nw e s)) \<longrightarrow>
         \<not> nullish (token (authState (step nw e s))) \<and> \<not> nullish (userId (authState (step nw e s)))"
proof -
  consider "authState (step nw e s) = authState s" | "authState (step nw e s) = empty_auth"
    | data a where "e = LoginSettles (Resolved data)" "next_authState data = Inr a"
        "authState (step nw e s) = a"
    using step_authState_cases [of nw e s] by blast
  then show ?thesis
  proof cases
    case 1
    with assms(2) show ?thesis by simp
  next
    case 2
    then show ?thesis by (simp add: empty_auth_def)
  next
    case 3
    from next_authState_Inr_fields [OF 3(2)] assms(1) 3(1,3) show ?thesis
      by simp
  qed
qed

lemma present_run:
  "list_all conforming evs \<Longrightarrow>
   isAuthenticated (authState (run nw evs app_ready)) \<longrightarrow>
     \<not> nullish (token (authState (run nw evs app_ready))) \<and>
     \<not> nullish (userId (authState (run nw evs app_ready)))"
proof (induction evs rule: rev_induct)
  case Nil
  show ?case by (simp add: app_ready_fields empty_auth_def)
next
  case (snoc e evs)
  then have "conforming e" and ih: "isAuthenticated (authState (run nw evs app_ready)) \<longrightarrow>
     \<not> nullish (token (authState (run nw evs app_ready))) \<and>
     \<not> nullish (userId (authState (run nw evs app_ready)))"
    by simp_all
  from present_step [OF this] show ?case by (simp only: run_snoc)
qed

text \<open>
  C5, as amended. Provided every login response that reports success carries a token
  (\<^verbatim>\<open>token\<close>, or \<^verbatim>\<open>customToken\<close> when that is falsy) and a user with a \<^verbatim>\<open>userID\<close>,
  neither null nor undefined, then, whatever the socket constructor does, in every state
  reached from start-up by any sequence of events (logins and their responses, logouts, timer ticks, API calls, socket and
  window events) an authenticated session record has a token and a user id that are
  neither null nor undefined. The code itself does not check the response.
\<close>

theorem authenticated_has_token_and_userId:
  assumes "list_all conforming evs"
    and "isAuthenticated (authState (run nw evs app_ready))"
  shows "\<not> nullish (token (authState (run nw evs app_ready))) \<and>
         \<not> nullish (userId (authState (run nw evs app_ready)))"
  using present_run [OF assms(1)] assms(2) by blast

theorem authenticated_has_token_and_userId_witness:
  "list_all conforming (login_events @ [Tick 1, Logout] @ login_events) \<and>
   isAuthenticated (authState (run refuse_fragment (login_events @ [Tick 1, Logout] @ login_events) app_ready)) \<and>
   \<not> nullish (token (authState (run refuse_fragment (login_events @ [Tick 1, Logout] @ login_events) app_ready))) \<and>
   \<not> nullish (userId (authState (run refuse_fragment (login_events @ [Tick 1, Logout] @ login_events) app_ready)))"
proof -
  have c: "list_all conforming (login_events @ [Tick 1, Logout] @ login_events)"
    by (simp add: login_events_def login_ok_def read_prop_def js_or_def nullish_def)
  obtain ax where ax: "axiosInstance (run refuse_fragment (login_events @ [Tick 1, Logout]) app_ready) = Some ax"
    using reachable_axios by blast
  have r: "run refuse_fragment (login_events @ [Tick 1, Logout] @ login_events) app_ready =
           run refuse_fragment login_events (run refuse_fragment (login_events @ [Tick 1, Logout]) app_ready)"
    using run_append [of refuse_fragment "login_events @ [Tick 1, Logout]" login_events
        app_ready]
    by (simp only: append_assoc)
  note f = run_login_fields(1) [OF ax next_authState_login_ok,
      of refuse_fragment "JStr ''ann@example.org''" "JStr ''secret''", folded login_events_def]
  have a: "isAuthenticated
     (authState (run refuse_fragment (login_events @ [Tick 1, Logout] @ login_events) app_ready))"
    unfolding r f by simp
  from authenticated_has_token_and_userId [OF c a] c a show ?thesis by blast
qed

section \<open>Sending on the socket\<close>

lemma websocket_send_closed:
  "mainProcessWebSocket s = None \<or> (\<exists>w. mainProcessWebSocket s = Some w \<and> readyState w \<noteq> OPEN)
   \<Longrightarrow> websocket_send stringify m s = (SendFailure ''WebSocket not connected'', s)"
  by (auto simp: websocket_send_def)

lemma logged_out_not_open:
  assumes "\<not> isAuthenticated (authState (run nw evs app_ready))"
  shows "mainProcessWebSocket (run nw evs app_ready) = None \<or>
         (\<exists>w. mainProcessWebSocket (run nw evs app_ready) = Some w \<and> readyState w \<noteq> OPEN)"
  using inv_reachable [of nw evs] assms
  by (cases "mainProcessWebSocket (run nw evs app_ready)") (auto simp: session_inv_def)

text \<open>
  C6. A \<^verbatim>\<open>websocket-send\<close> made when there is no socket, or when the socket is not open,
  returns the failure \<^verbatim>\<open>WebSocket not connected\<close> and leaves the state as it was, trace
  included: nothing is transmitted. That is the case in every state the event loop reaches
  in which the session is not authenticated. With an open socket the message is serialized
  and the text transmitted, the call returns success at once, and nothing else in the state
  changes: no acknowledgement is tracked.
\<close>

theorem websocket_send_guard:
  "(mainProcessWebSocket s = None \<or>
      (\<exists>w. mainProcessWebSocket s = Some w \<and> readyState w \<noteq> OPEN) \<longrightarrow>
      websocket_send stringify m s = (SendFailure ''WebSocket not connected'', s)) \<and>
   (\<not> isAuthenticated (authState (run nw evs app_ready)) \<longrightarrow>
      websocket_send stringify m (run nw evs app_ready) =
        (SendFailure ''WebSocket not connected'', run nw evs app_ready)) \<and>
   (mainProcessWebSocket s = Some w \<and> readyState w = OPEN \<and> stringify m = Inr frame \<longrightarrow>
      websocket_send stringify m s = (SendSuccess, s\<lparr>trace := trace s @ [WsTransmit frame]\<rparr>))"
proof (intro conjI impI)
  assume "mainProcessWebSocket s = None \<or>
      (\<exists>w. mainProcessWebSocket s = Some w \<and> readyState w \<noteq> OPEN)"
  then show "websocket_send stringify m s = (SendFailure ''WebSocket not connected'', s)"
    by (rule websocket_send_closed)
next
  assume "\<not> isAuthenticated (authState (run nw evs app_ready))"
  then show "websocket_send stringify m (run nw evs app_ready) =
        (SendFailure ''WebSocket not connected'', run nw evs app_ready)"
    by (intro websocket_send_closed logged_out_not_open)
next
  assume "mainProcessWebSocket s = Some w \<and> readyState w = OPEN \<and> stringify m = Inr frame"
  then show "websocket_send stringify m s =
      (SendSuccess, s\<lparr>trace := trace s @ [WsTransmit frame]\<rparr>)"
    by (simp add: websocket_send_def)
qed

theorem websocket_send_guard_witness:
  "mainProcessWebSocket app_ready = None \<and>
   websocket_send (\<lambda>v. Inr (JStr ''{}'')) (JObj []) app_ready =
     (SendFailure ''WebSocket not connected'', app_ready) \<and>
   \<not> isAuthenticated (authState (run refuse_fragment (login_events @ [SocketOpens, Logout]) app_ready)) \<and>
   websocket_send (\<lambda>v. Inr (JStr ''{}'')) (JObj [])
       (run refuse_fragment (login_events @ [SocketOpens, Logout]) app_ready) =
     (SendFailure ''WebSocket not connected'',
      run refuse_fragment (login_events @ [SocketOpens, Logout]) app_ready) \<and>
   mainProcessWebSocket (run refuse_fragment (login_events @ [SocketOpens]) app_ready) =
     Some \<lparr>ws_url = wsUrl (JStr ''u1''), readyState = OPEN\<rparr> \<and>
   websocket_send (\<lambda>v. Inr (JStr ''{}'')) (JObj [])
       (run refuse_fragment (login_events @ [SocketOpens]) app_ready) =
     (SendSuccess,
      (run refuse_fragment (login_events @ [SocketOpens]) app_ready)
        \<lparr>trace := trace (run refuse_fragment (login_events @ [SocketOpens]) app_ready)
                    @ [WsTransmit (JStr ''{}'')]\<rparr>)"
proof -
  have a: "mainProcessWebSocket app_ready = None"
    by (rule app_ready_fields)
  have b: "\<not> isAuthenticated (authState (run refuse_fragment (login_events @ [SocketOpens, Logout]) app_ready))"
    using run_snoc [of refuse_fragment "login_events @ [SocketOpens]" Logout app_ready]
    by (simp add: ipc_logout_fields empty_auth_def)
  have c: "mainProcessWebSocket (run refuse_fragment (login_events @ [SocketOpens]) app_ready) =
     Some \<lparr>ws_url = wsUrl (JStr ''u1''), readyState = OPEN\<rparr>"
    using step_SocketOpens_fields(1) [OF run_login_ok(2)]
    by (simp add: run_snoc)
  note t = websocket_send_guard [where stringify = "\<lambda>v. Inr (JStr ''{}'')" and m = "JObj []"
      and frame = "JStr ''{}''"]
  from a t [where s = app_ready] have 1:
    "websocket_send (\<lambda>v. Inr (JStr ''{}'')) (JObj []) app_ready =
       (SendFailure ''WebSocket not connected'', app_ready)" by blast
  from b t [where evs = "login_events @ [SocketOpens, Logout]" and nw = refuse_fragment] have 2:
    "websocket_send (\<lambda>v. Inr (JStr ''{}'')) (JObj [])
       (run refuse_fragment (login_events @ [SocketOpens, Logout]) app_ready) =
     (SendFailure ''WebSocket not connected'',
      run refuse_fragment (login_events @ [SocketOpens, Logout]) app_ready)" by blast
  from c t [where s = "run refuse_fragment (login_events @ [SocketOpens]) app_ready"
      and w = "\<lparr>ws_url = wsUrl (JStr ''u1''), readyState = OPEN\<rparr>"] have 3:
    "websocket_send (\<lambda>v. Inr (JStr ''{}'')) (JObj [])
       (run refuse_fragment (login_events @ [SocketOpens]) app_ready) =
     (SendSuccess,
      (run refuse_fragment (login_events @ [SocketOpens]) app_ready)
        \<lparr>trace := trace (run refuse_fragment (login_events @ [SocketOpens]) app_ready)
                    @ [WsTransmit (JStr ''{}'')]\<rparr>)" by simp
  from a b c 1 2 3 show ?thesis by blast
qed

section \<open>The connection monitor\<close>









section \<open>Idempotence of logout\<close>

lemma ws_close_idem: "ws_close (ws_close w) = ws_close w"
  by (simp add: ws_close_def)

lemma ws_close_closed:
  "readyState w = CLOSING \<or> readyState w = CLOSED \<Longrightarrow> ws_close w = w"
  by (auto simp: ws_close_def)

lemma clear_header_id:
  "common_Authorization ax = None \<Longrightarrow> ax\<lparr>common_Authorization := None\<rparr> = ax"
  by (cases ax) simp

lemma logoutUser_twice: "logoutUser (logoutUser s) = logoutUser s"
  by (simp add: logoutUser_def stopConnectionMonitoring_def Let_def ws_close_idem
      option.map_comp comp_def split: option.splits)

lemma logoutUser_noop:
  assumes "session_inv s" "\<not> isAuthenticated (authState s)"
  shows "logoutUser s = s"
proof -
  from assms obtain ax where ax: "axiosInstance s = Some ax" "common_Authorization ax = None"
    by (auto simp: session_inv_def split: option.splits)
  from assms have a: "authState s = empty_auth" "connectionMonitorInterval s = None"
    by (auto simp: session_inv_def)
  from assms have "map_option ws_close (mainProcessWebSocket s) = mainProcessWebSocket s"
    by (cases "mainProcessWebSocket s") (auto simp: session_inv_def ws_close_closed)
  then show ?thesis
    using ax a by (simp add: logoutUser_def stopConnectionMonitoring_def Let_def clear_header_id)
qed

text \<open>
  C8. \<^verbatim>\<open>logoutUser\<close> is idempotent: from every state, two calls in a row end in the
  state one call ends in (session record, socket, timer, default header and everything
  else); and in every state the event loop reaches from start-up, whatever the socket
  constructor does, in which the session is not authenticated, a call changes nothing at
  all.
\<close>

theorem logout_idempotent:
  "logoutUser (logoutUser s) = logoutUser s \<and>
   (\<not> isAuthenticated (authState (run nw evs app_ready)) \<longrightarrow>
      logoutUser (run nw evs app_ready) = run nw evs app_ready)"
  using logoutUser_twice logoutUser_noop inv_reachable by blast

theorem logout_idempotent_witness:
  "logoutUser (logoutUser (run refuse_fragment login_events app_ready)) = logoutUser (run refuse_fragment login_events app_ready)
   \<and> isAuthenticated (authState (run refuse_fragment login_events app_ready))
   \<and> \<not> isAuthenticated (authState (run refuse_fragment (login_events @ [Logout]) app_ready))
   \<and> logoutUser (run refuse_fragment (login_events @ [Logout]) app_ready)
       = run refuse_fragment (login_events @ [Logout]) app_ready"
proof -
  have a: "isAuthenticated (authState (run refuse_fragment login_events app_ready))"
    by (simp add: run_login_ok)
  have b: "\<not> isAuthenticated (authState (run refuse_fragment (login_events @ [Logout]) app_ready))"
    by (simp add: run_snoc ipc_logout_fields empty_auth_def)
  show ?thesis
    using a b logout_idempotent [of "run refuse_fragment login_events app_ready" refuse_fragment
        "login_events @ [Logout]"]
    by blast
qed

section \<open>The user-data query\<close>

lemma js_or_not_nullish: "\<not> nullish b \<Longrightarrow> \<not> nullish (js_or a b)"
  by (cases a) (auto simp: js_or_def nullish_def)

lemma next_authState_login_null_email:
  "next_authState login_null_email =
     Inr \<lparr>isAuthenticated = True, token = JStr ''tok'', userId = JStr ''u1'',
          username = JStr ''ann'', email = JNull,
          userData =
            Some \<lparr>ud_userId = JStr ''u1'', ud_username = JStr ''ann'', ud_email = JNull,
                  ownedCommunities = JArr [], memberCommunities = JArr []\<rparr>\<rparr>"
  by (simp add: login_null_email_def next_authState_def get_prop_def read_prop_def js_or_def
      nullish_def Let_def)

text \<open>
  C9 as stated fails in its last clause: after a login whose response reports success
  and carries a token, a user id, a name and a null \<^verbatim>\<open>email\<close>, the session is
  authenticated and the snapshot \<^verbatim>\<open>get-user-data\<close> returns has a null \<^verbatim>\<open>email\<close>.
\<close>

theorem user_data_null_email_counterexample:
  "isAuthenticated
     (authState
        (run refuse_fragment
           [AuthenticateUser (JStr ''ann@example.org'') (JStr ''secret''),
            LoginSettles (Resolved login_null_email)] app_ready)) \<and>
   get_user_data
     (run refuse_fragment
        [AuthenticateUser (JStr ''ann@example.org'') (JStr ''secret''),
         LoginSettles (Resolved login_null_email)] app_ready) =
     Some \<lparr>sn_username = JStr ''ann'', sn_userId = JStr ''u1'',
           sn_email = JNull, sn_isAuthenticated = True,
           sn_token = JStr ''tok'', sn_serviceInitialized = True,
           sn_ownedCommunities = JArr [], sn_memberCommunities = JArr []\<rparr>"
  unfolding get_user_data_def
    run_login_fields(1) [where nw = refuse_fragment and em = "JStr ''ann@example.org''"
      and pw = "JStr ''secret''", OF app_ready_fields(3) next_authState_login_null_email]
  by (simp add: userDataToSend_def js_or_def)

text \<open>
  C9, as amended. \<^verbatim>\<open>get-user-data\<close> returns null exactly when the session record is not
  authenticated. When it is authenticated the query returns a snapshot whose two flags
  are true, whose \<^verbatim>\<open>userId\<close>, \<^verbatim>\<open>email\<close> and \<^verbatim>\<open>token\<close> are those of the session record,
  copied as they are stored (null or undefined when the stored value is), whose
  \<^verbatim>\<open>username\<close> is the stored one when that is truthy and \<^verbatim>\<open>Unknown\<close> otherwise (so also
  when it is null or undefined), and whose two group lists are the stored ones when
  truthy and the empty sequence otherwise (so also when \<^verbatim>\<open>userData\<close> is null or the list
  is absent). Only the defaulted fields of a snapshot (the name and the two group lists)
  are never null or undefined.
\<close>

theorem get_user_data_snapshot:
  "(get_user_data s = None \<longleftrightarrow> \<not> isAuthenticated (authState s)) \<and>
   (isAuthenticated (authState s) \<longrightarrow>
      (\<exists>sn. get_user_data s = Some sn \<and>
         sn_isAuthenticated sn \<and> sn_serviceInitialized sn \<and>
         sn_userId sn = userId (authState s) \<and>
         sn_email sn = email (authState s) \<and>
         sn_token sn = token (authState s) \<and>
         sn_username sn =
           (if truthy (username (authState s)) then username (authState s)
            else JStr ''Unknown'') \<and>
         (nullish (username (authState s)) \<longrightarrow> sn_username sn = JStr ''Unknown'') \<and>
         sn_ownedCommunities sn =
           (case userData (authState s) of
              None \<Rightarrow> JArr []
            | Some u \<Rightarrow> if truthy (ownedCommunities u) then ownedCommunities u else JArr []) \<and>
         sn_memberCommunities sn =
           (case userData (authState s) of
              None \<Rightarrow> JArr []
            | Some u \<Rightarrow> if truthy (memberCommunities u) then memberCommunities u else JArr []) \<and>
         \<not> nullish (sn_username sn) \<and>
         \<not> nullish (sn_ownedCommunities sn) \<and>
         \<not> nullish (sn_memberCommunities sn)))"
proof (intro conjI impI)
  show "get_user_data s = None \<longleftrightarrow> \<not> isAuthenticated (authState s)"
    by (simp add: get_user_data_def)
next
  assume a: "isAuthenticated (authState s)"
  have n: "\<not> nullish (JStr ''Unknown'')" "\<not> nullish (JArr [])"
    by (simp_all add: nullish_def)
  have u: "nullish (username (authState s)) \<longrightarrow> \<not> truthy (username (authState s))"
    by (auto simp: nullish_def)
  show "\<exists>sn. get_user_data s = Some sn \<and>
         sn_isAuthenticated sn \<and> sn_serviceInitialized sn \<and>
         sn_userId sn = userId (authState s) \<and>
         sn_email sn = email (authState s) \<and>
         sn_token sn = token (authState s) \<and>
         sn_username sn =
           (if truthy (username (authState s)) then username (authState s)
            else JStr ''Unknown'') \<and>
         (nullish (username (authState s)) \<longrightarrow> sn_username sn = JStr ''Unknown'') \<and>
         sn_ownedCommunities sn =
           (case userData (authState s) of
              None \<Rightarrow> JArr []
            | Some u \<Rightarrow> if truthy (ownedCommunities u) then ownedCommunities u else JArr []) \<and>
         sn_memberCommunities sn =
           (case userData (authState s) of
              None \<Rightarrow> JArr []
            | Some u \<Rightarrow> if truthy (memberCommunities u) then memberCommunities u else JArr []) \<and>
         \<not> nullish (sn_username sn) \<and>
         \<not> nullish (sn_ownedCommunities sn) \<and>
         \<not> nullish (sn_memberCommunities sn)"
    using a u n js_or_not_nullish [OF n(1)] js_or_not_nullish [OF n(2)]
    by (cases "userData (authState s)")
       (auto simp: get_user_data_def userDataToSend_def js_or_def)
qed

lemma next_authState_login_no_username:
  "next_authState login_no_username =
     Inr \<lparr>isAuthenticated = True, token = JStr ''tok'', userId = JStr ''u1'',
          username = JUndefined, email = JStr ''ann@example.org'',
          userData =
            Some \<lparr>ud_userId = JStr ''u1'', ud_username = JUndefined,
                  ud_email = JStr ''ann@example.org'',
                  ownedCommunities = JArr [], memberCommunities = JArr []\<rparr>\<rparr>"
  by (simp add: login_no_username_def next_authState_def get_prop_def read_prop_def js_or_def
      nullish_def Let_def)

theorem get_user_data_snapshot_witness:
  "get_user_data app_ready = None \<and>
   \<not> isAuthenticated (authState app_ready) \<and>
   isAuthenticated (authState (run refuse_fragment login_events app_ready)) \<and>
   get_user_data (run refuse_fragment login_events app_ready) =
     Some \<lparr>sn_username = JStr ''ann'', sn_userId = JStr ''u1'',
           sn_email = JStr ''ann@example.org'', sn_isAuthenticated = True,
           sn_token = JStr ''tok'', sn_serviceInitialized = True,
           sn_ownedCommunities = JArr [], sn_memberCommunities = JArr []\<rparr> \<and>
   isAuthenticated
     (authState (run refuse_fragment [AuthenticateUser (JStr ''ann@example.org'') (JStr ''secret''),
                      LoginSettles (Resolved login_no_username)] app_ready)) \<and>
   nullish
     (username
        (authState (run refuse_fragment [AuthenticateUser (JStr ''ann@example.org'') (JStr ''secret''),
                         LoginSettles (Resolved login_no_username)] app_ready))) \<and>
   get_user_data
     (run refuse_fragment [AuthenticateUser (JStr ''ann@example.org'') (JStr ''secret''),
           LoginSettles (Resolved login_no_username)] app_ready) =
     Some \<lparr>sn_username = JStr ''Unknown'', sn_userId = JStr ''u1'',
           sn_email = JStr ''ann@example.org'', sn_isAuthenticated = True,
           sn_token = JStr ''tok'', sn_serviceInitialized = True,
           sn_ownedCommunities = JArr [], sn_memberCommunities = JArr []\<rparr>"
proof -
  let ?e = "run refuse_fragment [AuthenticateUser (JStr ''ann@example.org'') (JStr ''secret''),
                 LoginSettles (Resolved login_no_username)] app_ready"
  note f = run_login_fields(1) [where nw = refuse_fragment
      and em = "JStr ''ann@example.org''" and pw = "JStr ''secret''",
      OF app_ready_fields(3) next_authState_login_no_username]
  have a: "\<not> isAuthenticated (authState app_ready)"
    by (simp add: app_ready_fields empty_auth_def)
  have b: "isAuthenticated (authState (run refuse_fragment login_events app_ready))"
    by (simp add: run_login_ok)
  have c: "isAuthenticated (authState ?e)" "nullish (username (authState ?e))"
    unfolding f by (simp_all add: nullish_def)
  from get_user_data_snapshot [of "run refuse_fragment login_events app_ready"] b
  obtain sn where sn: "get_user_data (run refuse_fragment login_events app_ready) = Some sn"
    "sn_isAuthenticated sn" "sn_serviceInitialized sn"
    "sn_userId sn = userId (authState (run refuse_fragment login_events app_ready))"
    "sn_email sn = email (authState (run refuse_fragment login_events app_ready))"
    "sn_token sn = token (authState (run refuse_fragment login_events app_ready))"
    "sn_username sn =
           (if truthy (username (authState (run refuse_fragment login_events app_ready)))
            then username (authState (run refuse_fragment login_events app_ready))
            else JStr ''Unknown'')"
    "sn_ownedCommunities sn =
           (case userData (authState (run refuse_fragment login_events app_ready)) of
              None \<Rightarrow> JArr []
            | Some u \<Rightarrow> if truthy (ownedCommunities u) then ownedCommunities u else JArr [])"
    "sn_memberCommunities sn =
           (case userData (authState (run refuse_fragment login_events app_ready)) of
              None \<Rightarrow> JArr []
            | Some u \<Rightarrow> if truthy (memberCommunities u) then memberCommunities u else JArr [])"
    by blast
  then have 1: "sn = \<lparr>sn_username = JStr ''ann'', sn_userId = JStr ''u1'',
           sn_email = JStr ''ann@example.org'', sn_isAuthenticated = True,
           sn_token = JStr ''tok'', sn_serviceInitialized = True,
           sn_ownedCommunities = JArr [], sn_memberCommunities = JArr []\<rparr>"
    by (cases sn) (simp add: run_login_ok)
  from get_user_data_snapshot [of ?e] c
  obtain sm where sm: "get_user_data ?e = Some sm"
    "sn_isAuthenticated sm" "sn_serviceInitialized sm"
    "sn_userId sm = userId (authState ?e)"
    "sn_email sm = email (authState ?e)"
    "sn_token sm = token (authState ?e)"
    "sn_username sm = JStr ''Unknown''"
    "sn_ownedCommunities sm =
           (case userData (authState ?e) of
              None \<Rightarrow> JArr []
            | Some u \<Rightarrow> if truthy (ownedCommunities u) then ownedCommunities u else JArr [])"
    "sn_memberCommunities sm =
           (case userData (authState ?e) of
              None \<Rightarrow> JArr []
            | Some u \<Rightarrow> if truthy (memberCommunities u) then memberCommunities u else JArr [])"
    by blast
  then have 2: "sm = \<lparr>sn_username = JStr ''Unknown'', sn_userId = JStr ''u1'',
           sn_email = JStr ''ann@example.org'', sn_isAuthenticated = True,
           sn_token = JStr ''tok'', sn_serviceInitialized = True,
           sn_ownedCommunities = JArr [], sn_memberCommunities = JArr []\<rparr>"
    unfolding f by (cases sm) simp
  from get_user_data_snapshot [of app_ready] a have 3: "get_user_data app_ready = None"
    by blast
  from 3 a b sn(1) 1 c sm(1) 2 show ?thesis by simp
qed

section \<open>Unsupported methods of the API proxy\<close>



end
